theory Spec2Isabelle
  imports Main "HOL-Library.Word"
begin

section \<open>The ledger contract \<open>supply_chain::supply_chain\<close>\<close>

text \<open>
  A shallow embedding of \<^verbatim>\<open>contracts/sources/supply_chain.move\<close>. The Move module is
  embedded function by function; the parts of the Sui framework it calls
  (\<^verbatim>\<open>object::new\<close>, \<^verbatim>\<open>transfer::transfer\<close>, \<^verbatim>\<open>transfer::share_object\<close>,
  \<^verbatim>\<open>event::emit\<close>, \<^verbatim>\<open>clock::timestamp_ms\<close>, \<^verbatim>\<open>tx_context::sender\<close>,
  \<^verbatim>\<open>string::utf8\<close>) are modelled as small state-passing primitives over an explicit
  ledger: the global object store, the event stream and a transaction counter.
\<close>

subsection \<open>Primitive types\<close>

type_synonym u8 = "8 word"
type_synonym u64 = "64 word"
type_synonym address = "256 word"

text \<open>
  \<^verbatim>\<open>std::string::String\<close> is a struct around the bytes; \<^verbatim>\<open>string::utf8\<close> is its only
  constructor used by the module.
\<close>

datatype String = String (bytes: "u8 list")

text \<open>
  An abort carries the module that raised it and the code. The codes of the module
  and the one of \<^verbatim>\<open>std::string\<close> that \<^verbatim>\<open>string::utf8\<close> raises.
\<close>

datatype module_id = Supply_chain | Std_string

datatype abort = Abort (location: module_id) (code: u64)

definition EInvalidConfidenceScore :: u64 where
  "EInvalidConfidenceScore = 1"

definition EInvalidSignature :: u64 where
  "EInvalidSignature = 2"

definition EUnauthorized :: u64 where
  "EUnauthorized = 3"

definition EINVALID_UTF8 :: u64 where
  "EINVALID_UTF8 = 1"

subsection \<open>UTF-8 validation\<close>

text \<open>
  \<^verbatim>\<open>string::utf8\<close> asserts the native \<^verbatim>\<open>internal_check_utf8\<close>, which is the
  well-formedness test of the Unicode standard (table 3-7; surrogates and overlong
  forms are ill-formed, the largest code point is U+10FFFF).
\<close>

definition cont :: "u8 \<Rightarrow> bool" where
  "cont b \<longleftrightarrow> 0x80 \<le> b \<and> b \<le> 0xBF"

fun internal_check_utf8 :: "u8 list \<Rightarrow> bool" where
  "internal_check_utf8 [] = True"
| "internal_check_utf8 [b0] = (b0 \<le> 0x7F)"
| "internal_check_utf8 [b0, b1] =
     (if b0 \<le> 0x7F then internal_check_utf8 [b1]
      else 0xC2 \<le> b0 \<and> b0 \<le> 0xDF \<and> cont b1)"
| "internal_check_utf8 [b0, b1, b2] =
     (if b0 \<le> 0x7F then internal_check_utf8 [b1, b2]
      else if 0xC2 \<le> b0 \<and> b0 \<le> 0xDF then cont b1 \<and> internal_check_utf8 [b2]
      else if b0 = 0xE0 then 0xA0 \<le> b1 \<and> b1 \<le> 0xBF \<and> cont b2
      else if b0 = 0xED then 0x80 \<le> b1 \<and> b1 \<le> 0x9F \<and> cont b2
      else 0xE1 \<le> b0 \<and> b0 \<le> 0xEF \<and> cont b1 \<and> cont b2)"
| "internal_check_utf8 (b0 # b1 # b2 # b3 # bs) =
     (if b0 \<le> 0x7F then internal_check_utf8 (b1 # b2 # b3 # bs)
      else if 0xC2 \<le> b0 \<and> b0 \<le> 0xDF then cont b1 \<and> internal_check_utf8 (b2 # b3 # bs)
      else if b0 = 0xE0 then
        0xA0 \<le> b1 \<and> b1 \<le> 0xBF \<and> cont b2 \<and> internal_check_utf8 (b3 # bs)
      else if b0 = 0xED then
        0x80 \<le> b1 \<and> b1 \<le> 0x9F \<and> cont b2 \<and> internal_check_utf8 (b3 # bs)
      else if 0xE1 \<le> b0 \<and> b0 \<le> 0xEF then
        cont b1 \<and> cont b2 \<and> internal_check_utf8 (b3 # bs)
      else if b0 = 0xF0 then
        0x90 \<le> b1 \<and> b1 \<le> 0xBF \<and> cont b2 \<and> cont b3 \<and> internal_check_utf8 bs
      else if b0 = 0xF4 then
        0x80 \<le> b1 \<and> b1 \<le> 0x8F \<and> cont b2 \<and> cont b3 \<and> internal_check_utf8 bs
      else 0xF1 \<le> b0 \<and> b0 \<le> 0xF3 \<and> cont b1 \<and> cont b2 \<and> cont b3
           \<and> internal_check_utf8 bs)"

text \<open>\<^verbatim>\<open>string::utf8(bytes)\<close>: abort \<^verbatim>\<open>EINVALID_UTF8\<close> unless the bytes are UTF-8.\<close>

definition utf8 :: "u8 list \<Rightarrow> abort + String" where
  "utf8 bs = (if internal_check_utf8 bs then Inr (String bs)
              else Inl (Abort Std_string EINVALID_UTF8))"

subsection \<open>Structs of the module\<close>

text \<open>
  An object id is derived by the framework from the transaction digest and the number
  of ids the transaction has created so far; the derivation is a hash, taken here to
  be injective, so the id is the pair itself.
\<close>

datatype UID = UID (tx_digest: nat) (creation_index: nat)

record ShipmentRegistry =
  id' :: UID
  owner :: address

record Shipment =
  id' :: UID
  shipment_id :: String
  ai_summary :: String
  confidence_score :: u64
  timestamp :: u64
  oracle_signature :: "u8 list"
  oracle_address :: address

text \<open>
  The two event structs, as one type of the event stream: \<^verbatim>\<open>ShipmentUpdated\<close>
  \<open>{shipment_id, confidence_score, timestamp, oracle_address}\<close> and \<^verbatim>\<open>ShipmentCreated\<close>
  \<open>{shipment_id, timestamp}\<close>.
\<close>

datatype event =
    ShipmentUpdated String u64 u64 address
  | ShipmentCreated String u64

subsection \<open>Framework state\<close>

record TxContext =
  sender :: address
  tx_hash :: nat
  ids_created :: nat

record Clock =
  timestamp_ms :: u64

datatype Owner = AddressOwner address | Shared

datatype Object = ShipmentObj Shipment | RegistryObj ShipmentRegistry

record ledger =
  objects :: "(Owner \<times> Object) list"
  events :: "event list"
  tx_count :: nat

text \<open>\<^verbatim>\<open>object::new(ctx)\<close>: a fresh id, and the context counts it.\<close>

definition object_new :: "TxContext \<Rightarrow> UID \<times> TxContext" where
  "object_new ctx =
     (UID (tx_hash ctx) (ids_created ctx), ctx\<lparr>ids_created := ids_created ctx + 1\<rparr>)"

definition emit :: "event \<Rightarrow> ledger \<Rightarrow> ledger" where
  "emit e l = l\<lparr>events := events l @ [e]\<rparr>"

definition transfer :: "Object \<Rightarrow> address \<Rightarrow> ledger \<Rightarrow> ledger" where
  "transfer obj recipient l = l\<lparr>objects := objects l @ [(AddressOwner recipient, obj)]\<rparr>"

definition share_object :: "Object \<Rightarrow> ledger \<Rightarrow> ledger" where
  "share_object obj l = l\<lparr>objects := objects l @ [(Shared, obj)]\<rparr>"

subsection \<open>Functions of the module\<close>

definition init :: "TxContext \<Rightarrow> ledger \<Rightarrow> TxContext \<times> ledger" where
  "init ctx l =
     (let (uid, ctx1) = object_new ctx;
          registry = \<lparr>ShipmentRegistry.id' = uid, owner = sender ctx1\<rparr>
      in (ctx1, share_object (RegistryObj registry) l))"

definition oracle_update ::
  "u8 list \<Rightarrow> u8 list \<Rightarrow> u64 \<Rightarrow> u8 list \<Rightarrow> Clock \<Rightarrow> TxContext \<Rightarrow> ledger
     \<Rightarrow> abort + (TxContext \<times> ledger)" where
  "oracle_update shipment_id_bytes ai_summary_bytes confidence oracle_sig clock ctx l =
     (if \<not> confidence \<le> 100 then Inl (Abort Supply_chain EInvalidConfidenceScore)
      else case utf8 shipment_id_bytes of
        Inl e \<Rightarrow> Inl e
      | Inr shipment_id_str \<Rightarrow>
          (case utf8 ai_summary_bytes of
             Inl e \<Rightarrow> Inl e
           | Inr ai_summary_str \<Rightarrow>
               (let ts = timestamp_ms clock;
                    oracle_addr = sender ctx;
                    (uid, ctx1) = object_new ctx;
                    shipment = \<lparr>Shipment.id' = uid,
                                shipment_id = shipment_id_str,
                                ai_summary = ai_summary_str,
                                confidence_score = confidence,
                                timestamp = ts,
                                oracle_signature = oracle_sig,
                                oracle_address = oracle_addr\<rparr>;
                    l1 = emit (ShipmentUpdated shipment_id_str confidence ts oracle_addr) l
                in Inr (ctx1, transfer (ShipmentObj shipment) oracle_addr l1))))"

definition create_shipment ::
  "u8 list \<Rightarrow> u8 list \<Rightarrow> u64 \<Rightarrow> Clock \<Rightarrow> TxContext \<Rightarrow> ledger
     \<Rightarrow> abort + (TxContext \<times> ledger)" where
  "create_shipment shipment_id_bytes ai_summary_bytes confidence clock ctx l =
     (if \<not> confidence \<le> 100 then Inl (Abort Supply_chain EInvalidConfidenceScore)
      else case utf8 shipment_id_bytes of
        Inl e \<Rightarrow> Inl e
      | Inr shipment_id_str \<Rightarrow>
          (case utf8 ai_summary_bytes of
             Inl e \<Rightarrow> Inl e
           | Inr ai_summary_str \<Rightarrow>
               (let ts = timestamp_ms clock;
                    creator = sender ctx;
                    (uid, ctx1) = object_new ctx;
                    shipment = \<lparr>Shipment.id' = uid,
                                shipment_id = shipment_id_str,
                                ai_summary = ai_summary_str,
                                confidence_score = confidence,
                                timestamp = ts,
                                oracle_signature = [],
                                oracle_address = creator\<rparr>;
                    l1 = emit (ShipmentCreated shipment_id_str ts) l
                in Inr (ctx1, transfer (ShipmentObj shipment) creator l1))))"

text \<open>
  \<^verbatim>\<open>update_shipment\<close> takes the record by mutable reference: the model takes the
  record's value and returns the value the reference holds afterwards.
\<close>

definition update_shipment ::
  "Shipment \<Rightarrow> u8 list \<Rightarrow> u64 \<Rightarrow> u8 list \<Rightarrow> Clock \<Rightarrow> TxContext \<Rightarrow> ledger
     \<Rightarrow> abort + (Shipment \<times> ledger)" where
  "update_shipment shipment new_summary new_confidence new_signature clock ctx l =
     (if \<not> new_confidence \<le> 100 then Inl (Abort Supply_chain EInvalidConfidenceScore)
      else case utf8 new_summary of
        Inl e \<Rightarrow> Inl e
      | Inr summary_str \<Rightarrow>
          (let s1 = shipment\<lparr>ai_summary := summary_str\<rparr>;
               s2 = s1\<lparr>confidence_score := new_confidence\<rparr>;
               s3 = s2\<lparr>timestamp := timestamp_ms clock\<rparr>;
               s4 = s3\<lparr>oracle_signature := new_signature\<rparr>;
               s5 = s4\<lparr>oracle_address := sender ctx\<rparr>
           in Inr (s5, emit (ShipmentUpdated (shipment_id s5) new_confidence
                               (timestamp s5) (oracle_address s5)) l)))"

definition get_shipment_id :: "Shipment \<Rightarrow> String" where
  "get_shipment_id shipment = shipment_id shipment"

definition get_ai_summary :: "Shipment \<Rightarrow> String" where
  "get_ai_summary shipment = ai_summary shipment"

definition get_confidence_score :: "Shipment \<Rightarrow> u64" where
  "get_confidence_score shipment = confidence_score shipment"

definition get_timestamp :: "Shipment \<Rightarrow> u64" where
  "get_timestamp shipment = timestamp shipment"

definition get_oracle_address :: "Shipment \<Rightarrow> address" where
  "get_oracle_address shipment = oracle_address shipment"

definition get_signature_length :: "Shipment \<Rightarrow> u64" where
  "get_signature_length shipment = of_nat (length (oracle_signature shipment))"

subsection \<open>Transactions\<close>

text \<open>
  What the ledger does around a call of an entry function. A transaction names its
  sender and the call; the ledger supplies the clock and a fresh context. A
  \<^verbatim>\<open>&mut Shipment\<close> argument is named by its object id: the ledger refuses the
  transaction unless that object is a \<^verbatim>\<open>Shipment\<close> owned by the sender (or shared),
  lends the record to the call and stores the record back afterwards. A call that
  aborts leaves no effect: neither objects nor events change.
\<close>

datatype call =
    Oracle_update "u8 list" "u8 list" u64 "u8 list"
  | Create_shipment "u8 list" "u8 list" u64
  | Update_shipment UID "u8 list" u64 "u8 list"

datatype status = Success | MoveAbort abort | InvalidInput

fun find_shipment :: "UID \<Rightarrow> (Owner \<times> Object) list \<Rightarrow> (Owner \<times> Shipment) option" where
  "find_shipment oid [] = None"
| "find_shipment oid ((ow, ShipmentObj s) # os) =
     (if Shipment.id' s = oid then Some (ow, s) else find_shipment oid os)"
| "find_shipment oid ((ow, RegistryObj r) # os) = find_shipment oid os"

fun write_back :: "Shipment \<Rightarrow> (Owner \<times> Object) list \<Rightarrow> (Owner \<times> Object) list" where
  "write_back s' [] = []"
| "write_back s' ((ow, ShipmentObj s) # os) =
     (if Shipment.id' s = Shipment.id' s' then (ow, ShipmentObj s') # os
      else (ow, ShipmentObj s) # write_back s' os)"
| "write_back s' ((ow, RegistryObj r) # os) = (ow, RegistryObj r) # write_back s' os"

definition may_borrow_mut :: "address \<Rightarrow> Owner \<Rightarrow> bool" where
  "may_borrow_mut a ow \<longleftrightarrow> ow = AddressOwner a \<or> ow = Shared"

definition new_context :: "address \<Rightarrow> ledger \<Rightarrow> TxContext" where
  "new_context a l = \<lparr>sender = a, tx_hash = tx_count l, ids_created = 0\<rparr>"

definition executed :: "ledger \<Rightarrow> ledger" where
  "executed l = l\<lparr>tx_count := tx_count l + 1\<rparr>"

definition execute :: "address \<Rightarrow> Clock \<Rightarrow> call \<Rightarrow> ledger \<Rightarrow> status \<times> ledger" where
  "execute a clock c l =
     (case c of
        Oracle_update sid summary conf sg \<Rightarrow>
          (case oracle_update sid summary conf sg clock (new_context a l) l of
             Inl e \<Rightarrow> (MoveAbort e, executed l)
           | Inr (ctx', l') \<Rightarrow> (Success, executed l'))
      | Create_shipment sid summary conf \<Rightarrow>
          (case create_shipment sid summary conf clock (new_context a l) l of
             Inl e \<Rightarrow> (MoveAbort e, executed l)
           | Inr (ctx', l') \<Rightarrow> (Success, executed l'))
      | Update_shipment oid summary conf sg \<Rightarrow>
          (case find_shipment oid (objects l) of
             None \<Rightarrow> (InvalidInput, l)
           | Some (ow, s) \<Rightarrow>
               if \<not> may_borrow_mut a ow then (InvalidInput, l)
               else
                 (case update_shipment s summary conf sg clock (new_context a l) l of
                    Inl e \<Rightarrow> (MoveAbort e, executed l)
                  | Inr (s', l') \<Rightarrow>
                      (Success, executed (l'\<lparr>objects := write_back s' (objects l')\<rparr>)))))"

text \<open>
  Publishing the package runs \<^verbatim>\<open>init\<close> once, in the first transaction, with the
  publisher as sender. The ledgers the module can be in are those reached from there
  by a sequence of transactions.
\<close>

definition genesis :: ledger where
  "genesis = \<lparr>objects = [], events = [], tx_count = 0\<rparr>"

definition publish :: "address \<Rightarrow> ledger" where
  "publish publisher = executed (snd (init (new_context publisher genesis) genesis))"

definition run :: "address \<Rightarrow> (address \<times> Clock \<times> call) list \<Rightarrow> ledger" where
  "run publisher txs =
     foldl (\<lambda>l (a, clock, c). snd (execute a clock c l)) (publish publisher) txs"

fun shipments :: "(Owner \<times> Object) list \<Rightarrow> Shipment list" where
  "shipments [] = []"
| "shipments ((ow, ShipmentObj s) # os) = s # shipments os"
| "shipments ((ow, RegistryObj r) # os) = shipments os"

fun registries :: "(Owner \<times> Object) list \<Rightarrow> (Owner \<times> ShipmentRegistry) list" where
  "registries [] = []"
| "registries ((ow, ShipmentObj s) # os) = registries os"
| "registries ((ow, RegistryObj r) # os) = (ow, r) # registries os"

subsection \<open>Invariants\<close>

text \<open>
  Two properties of a ledger that every transaction keeps: the object id of a record
  comes from a transaction already counted, and a record is never shared (the module
  only ever transfers it to an address).
\<close>

definition ids_below :: "ledger \<Rightarrow> bool" where
  "ids_below l \<longleftrightarrow> (\<forall>s \<in> set (shipments (objects l)). tx_digest (Shipment.id' s) < tx_count l)"

definition records_owned :: "ledger \<Rightarrow> bool" where
  "records_owned l \<longleftrightarrow>
     (\<forall>oid ow s. find_shipment oid (objects l) = Some (ow, s) \<longrightarrow> ow \<noteq> Shared)"

subsection \<open>Sample data\<close>

text \<open>The bytes of \<open>SHIP-1\<close> and of \<open>delay 2h\<close>, a signature, and two accounts.\<close>

definition SHIP_1 :: "u8 list" where
  "SHIP_1 = [0x53, 0x48, 0x49, 0x50, 0x2D, 0x31]"

definition delay_2h :: "u8 list" where
  "delay_2h = [0x64, 0x65, 0x6C, 0x61, 0x79, 0x20, 0x32, 0x68]"

definition sig0 :: "u8 list" where
  "sig0 = [0xDE, 0xAD, 0xBE, 0xEF]"

definition alice :: address where
  "alice = 0xA11CE"

definition bob :: address where
  "bob = 0xB0B"

definition at_ms :: "u64 \<Rightarrow> Clock" where
  "at_ms t = \<lparr>timestamp_ms = t\<rparr>"

section \<open>Properties\<close>

lemmas model_defs =
  run_def publish_def genesis_def init_def execute_def executed_def new_context_def
  may_borrow_mut_def oracle_update_def create_shipment_def update_shipment_def
  utf8_def cont_def object_new_def emit_def transfer_def share_object_def Let_def
  EInvalidConfidenceScore_def EINVALID_UTF8_def
  get_shipment_id_def get_ai_summary_def get_confidence_score_def get_timestamp_def
  get_oracle_address_def get_signature_length_def

lemmas sample_defs = SHIP_1_def delay_2h_def sig0_def alice_def bob_def at_ms_def

subsection \<open>Acceptance of a call\<close>

lemma oracle_update_abort_conf:
  "100 < c \<Longrightarrow>
   oracle_update sid sm c sg clock ctx l = Inl (Abort Supply_chain EInvalidConfidenceScore)"
  by (auto simp: oracle_update_def dest: leD)

lemma create_shipment_abort_conf:
  "100 < c \<Longrightarrow>
   create_shipment sid sm c clock ctx l = Inl (Abort Supply_chain EInvalidConfidenceScore)"
  by (auto simp: create_shipment_def dest: leD)

lemma update_shipment_abort_conf:
  "100 < c \<Longrightarrow>
   update_shipment s sm c sg clock ctx l = Inl (Abort Supply_chain EInvalidConfidenceScore)"
  by (auto simp: update_shipment_def dest: leD)

lemma executed_fields [simp]:
  "objects (executed l) = objects l" "events (executed l) = events l"
  "tx_count (executed l) = Suc (tx_count l)"
  by (simp_all add: executed_def)

lemma execute_abort_unchanged:
  "fst (execute a clock c l) \<noteq> Success \<Longrightarrow>
   objects (snd (execute a clock c l)) = objects l \<and>
   events (snd (execute a clock c l)) = events l"
  by (auto simp: execute_def split: call.splits sum.splits option.splits if_splits)

lemma oracle_update_accept:
  "c \<le> 100 \<Longrightarrow> internal_check_utf8 sid \<Longrightarrow> internal_check_utf8 sm \<Longrightarrow>
   oracle_update sid sm c sg clock ctx l =
     Inr (ctx\<lparr>ids_created := ids_created ctx + 1\<rparr>,
          l\<lparr>objects := objects l @
                 [(AddressOwner (sender ctx),
                   ShipmentObj \<lparr>Shipment.id' = UID (tx_hash ctx) (ids_created ctx),
                     shipment_id = String sid, ai_summary = String sm,
                     confidence_score = c, timestamp = timestamp_ms clock,
                     oracle_signature = sg, oracle_address = sender ctx\<rparr>)],
            events := events l @
                 [ShipmentUpdated (String sid) c (timestamp_ms clock) (sender ctx)]\<rparr>)"
  by (simp add: oracle_update_def utf8_def object_new_def emit_def transfer_def Let_def)

lemma create_shipment_accept:
  "c \<le> 100 \<Longrightarrow> internal_check_utf8 sid \<Longrightarrow> internal_check_utf8 sm \<Longrightarrow>
   create_shipment sid sm c clock ctx l =
     Inr (ctx\<lparr>ids_created := ids_created ctx + 1\<rparr>,
          l\<lparr>objects := objects l @
                 [(AddressOwner (sender ctx),
                   ShipmentObj \<lparr>Shipment.id' = UID (tx_hash ctx) (ids_created ctx),
                     shipment_id = String sid, ai_summary = String sm,
                     confidence_score = c, timestamp = timestamp_ms clock,
                     oracle_signature = [], oracle_address = sender ctx\<rparr>)],
            events := events l @ [ShipmentCreated (String sid) (timestamp_ms clock)]\<rparr>)"
  by (simp add: create_shipment_def utf8_def object_new_def emit_def transfer_def Let_def)

lemma update_shipment_accept:
  "c \<le> 100 \<Longrightarrow> internal_check_utf8 sm \<Longrightarrow>
   update_shipment s sm c sg clock ctx l =
     Inr (s\<lparr>ai_summary := String sm, confidence_score := c,
             timestamp := timestamp_ms clock, oracle_signature := sg,
             oracle_address := sender ctx\<rparr>,
          l\<lparr>events := events l @
                 [ShipmentUpdated (shipment_id s) c (timestamp_ms clock) (sender ctx)]\<rparr>)"
  by (simp add: update_shipment_def utf8_def emit_def Let_def)

lemma oracle_update_abort_utf8:
  "c \<le> 100 \<Longrightarrow> \<not> (internal_check_utf8 sid \<and> internal_check_utf8 sm) \<Longrightarrow>
   oracle_update sid sm c sg clock ctx l = Inl (Abort Std_string EINVALID_UTF8)"
  by (auto simp: oracle_update_def utf8_def)

lemma create_shipment_abort_utf8:
  "c \<le> 100 \<Longrightarrow> \<not> (internal_check_utf8 sid \<and> internal_check_utf8 sm) \<Longrightarrow>
   create_shipment sid sm c clock ctx l = Inl (Abort Std_string EINVALID_UTF8)"
  by (auto simp: create_shipment_def utf8_def)

lemma update_shipment_abort_utf8:
  "c \<le> 100 \<Longrightarrow> \<not> internal_check_utf8 sm \<Longrightarrow>
   update_shipment s sm c sg clock ctx l = Inl (Abort Std_string EINVALID_UTF8)"
  by (auto simp: update_shipment_def utf8_def)

lemma oracle_update_InrD:
  "oracle_update sid sm c sg clock ctx l = Inr r \<Longrightarrow>
   c \<le> 100 \<and> internal_check_utf8 sid \<and> internal_check_utf8 sm"
  by (auto simp: oracle_update_def utf8_def split: if_splits)

lemma create_shipment_InrD:
  "create_shipment sid sm c clock ctx l = Inr r \<Longrightarrow>
   c \<le> 100 \<and> internal_check_utf8 sid \<and> internal_check_utf8 sm"
  by (auto simp: create_shipment_def utf8_def split: if_splits)

lemma update_shipment_InrD:
  "update_shipment s sm c sg clock ctx l = Inr r \<Longrightarrow> c \<le> 100 \<and> internal_check_utf8 sm"
  by (auto simp: update_shipment_def utf8_def split: if_splits)

subsection \<open>What an accepted transaction does to the ledger\<close>

lemma execute_oracle_update_accept:
  "c \<le> 100 \<Longrightarrow> internal_check_utf8 sid \<Longrightarrow> internal_check_utf8 sm \<Longrightarrow>
   execute a clock (Oracle_update sid sm c sg) l =
     (Success,
      l\<lparr>objects := objects l @
             [(AddressOwner a,
               ShipmentObj \<lparr>Shipment.id' = UID (tx_count l) 0,
                 shipment_id = String sid, ai_summary = String sm,
                 confidence_score = c, timestamp = timestamp_ms clock,
                 oracle_signature = sg, oracle_address = a\<rparr>)],
         events := events l @ [ShipmentUpdated (String sid) c (timestamp_ms clock) a],
         tx_count := Suc (tx_count l)\<rparr>)"
  by (simp add: execute_def oracle_update_accept new_context_def executed_def)

lemma execute_create_shipment_accept:
  "c \<le> 100 \<Longrightarrow> internal_check_utf8 sid \<Longrightarrow> internal_check_utf8 sm \<Longrightarrow>
   execute a clock (Create_shipment sid sm c) l =
     (Success,
      l\<lparr>objects := objects l @
             [(AddressOwner a,
               ShipmentObj \<lparr>Shipment.id' = UID (tx_count l) 0,
                 shipment_id = String sid, ai_summary = String sm,
                 confidence_score = c, timestamp = timestamp_ms clock,
                 oracle_signature = [], oracle_address = a\<rparr>)],
         events := events l @ [ShipmentCreated (String sid) (timestamp_ms clock)],
         tx_count := Suc (tx_count l)\<rparr>)"
  by (simp add: execute_def create_shipment_accept new_context_def executed_def)

lemma execute_update_shipment_accept:
  "find_shipment oid (objects l) = Some (ow, s) \<Longrightarrow> may_borrow_mut a ow \<Longrightarrow>
   c \<le> 100 \<Longrightarrow> internal_check_utf8 sm \<Longrightarrow>
   execute a clock (Update_shipment oid sm c sg) l =
     (Success,
      l\<lparr>objects := write_back
             (s\<lparr>ai_summary := String sm, confidence_score := c,
                 timestamp := timestamp_ms clock, oracle_signature := sg,
                 oracle_address := a\<rparr>) (objects l),
         events := events l @ [ShipmentUpdated (shipment_id s) c (timestamp_ms clock) a],
         tx_count := Suc (tx_count l)\<rparr>)"
  by (simp add: execute_def update_shipment_accept new_context_def executed_def)

lemma execute_oracle_update_Success_iff:
  "fst (execute a clock (Oracle_update sid sm c sg) l) = Success \<longleftrightarrow>
   c \<le> 100 \<and> internal_check_utf8 sid \<and> internal_check_utf8 sm"
proof
  assume "fst (execute a clock (Oracle_update sid sm c sg) l) = Success"
  then show "c \<le> 100 \<and> internal_check_utf8 sid \<and> internal_check_utf8 sm"
    by (auto simp: execute_def split: sum.splits dest: oracle_update_InrD)
next
  assume "c \<le> 100 \<and> internal_check_utf8 sid \<and> internal_check_utf8 sm"
  then show "fst (execute a clock (Oracle_update sid sm c sg) l) = Success"
    by (simp add: execute_oracle_update_accept)
qed

lemma execute_create_shipment_Success_iff:
  "fst (execute a clock (Create_shipment sid sm c) l) = Success \<longleftrightarrow>
   c \<le> 100 \<and> internal_check_utf8 sid \<and> internal_check_utf8 sm"
proof
  assume "fst (execute a clock (Create_shipment sid sm c) l) = Success"
  then show "c \<le> 100 \<and> internal_check_utf8 sid \<and> internal_check_utf8 sm"
    by (auto simp: execute_def split: sum.splits dest: create_shipment_InrD)
next
  assume "c \<le> 100 \<and> internal_check_utf8 sid \<and> internal_check_utf8 sm"
  then show "fst (execute a clock (Create_shipment sid sm c) l) = Success"
    by (simp add: execute_create_shipment_accept)
qed

lemma execute_update_shipment_Success_iff:
  "fst (execute a clock (Update_shipment oid sm c sg) l) = Success \<longleftrightarrow>
   (\<exists>ow s. find_shipment oid (objects l) = Some (ow, s) \<and> may_borrow_mut a ow) \<and>
   c \<le> 100 \<and> internal_check_utf8 sm"
proof
  assume "fst (execute a clock (Update_shipment oid sm c sg) l) = Success"
  then show "(\<exists>ow s. find_shipment oid (objects l) = Some (ow, s) \<and> may_borrow_mut a ow) \<and>
      c \<le> 100 \<and> internal_check_utf8 sm"
    by (auto simp: execute_def split: sum.splits option.splits if_splits
        dest: update_shipment_InrD)
next
  assume "(\<exists>ow s. find_shipment oid (objects l) = Some (ow, s) \<and> may_borrow_mut a ow) \<and>
      c \<le> 100 \<and> internal_check_utf8 sm"
  then show "fst (execute a clock (Update_shipment oid sm c sg) l) = Success"
    by (auto simp: execute_update_shipment_accept)
qed

subsection \<open>The object store\<close>

lemma shipments_append: "shipments (xs @ ys) = shipments xs @ shipments ys"
  by (induction xs rule: shipments.induct) simp_all

lemma registries_append: "registries (xs @ ys) = registries xs @ registries ys"
  by (induction xs rule: registries.induct) simp_all

lemma find_shipment_SomeD:
  "find_shipment oid os = Some (ow, s) \<Longrightarrow> Shipment.id' s = oid \<and> s \<in> set (shipments os)"
  by (induction oid os rule: find_shipment.induct) (auto split: if_splits)

lemma find_shipment_append:
  "find_shipment oid (xs @ ys) =
     (case find_shipment oid xs of None \<Rightarrow> find_shipment oid ys | Some r \<Rightarrow> Some r)"
  by (induction oid xs rule: find_shipment.induct) simp_all

lemma find_shipment_None_iff:
  "find_shipment oid os = None \<longleftrightarrow> oid \<notin> set (map Shipment.id' (shipments os))"
  by (induction oid os rule: find_shipment.induct) auto

lemma registries_write_back: "registries (write_back s' os) = registries os"
  by (induction s' os rule: write_back.induct) simp_all

lemma owners_write_back: "map fst (write_back s' os) = map fst os"
  by (induction s' os rule: write_back.induct) simp_all

lemma length_write_back: "length (write_back s' os) = length os"
  by (induction s' os rule: write_back.induct) simp_all

lemma ids_write_back:
  "map Shipment.id' (shipments (write_back s' os)) = map Shipment.id' (shipments os)"
  by (induction s' os rule: write_back.induct) simp_all

lemma set_shipments_write_back:
  "set (shipments (write_back s' os)) \<subseteq> insert s' (set (shipments os))"
  by (induction s' os rule: write_back.induct) auto

lemma find_shipment_write_back_same:
  "find_shipment (Shipment.id' s') (write_back s' os) =
     (case find_shipment (Shipment.id' s') os of None \<Rightarrow> None | Some (ow, s) \<Rightarrow> Some (ow, s'))"
  by (induction s' os rule: write_back.induct) simp_all

lemma find_shipment_write_back_other:
  "oid \<noteq> Shipment.id' s' \<Longrightarrow> find_shipment oid (write_back s' os) = find_shipment oid os"
  by (induction s' os rule: write_back.induct) auto

lemma run_Nil: "run p [] = publish p"
  by (simp add: run_def)

lemma run_snoc: "run p (txs @ [(a, clock, c)]) = snd (execute a clock c (run p txs))"
  by (simp add: run_def)

lemma publish_eq:
  "publish p =
     \<lparr>objects = [(Shared, RegistryObj \<lparr>ShipmentRegistry.id' = UID 0 0, owner = p\<rparr>)],
      events = [], tx_count = 1\<rparr>"
  by (simp add: publish_def init_def genesis_def new_context_def object_new_def
      share_object_def executed_def)

text \<open>
  The effect of any transaction on the object store: nothing, a new record owned by the
  sender, or a record of the store written back with its id.
\<close>

lemma execute_objects:
  "objects (snd (execute a clock c l)) = objects l \<or>
   (\<exists>r. objects (snd (execute a clock c l)) = objects l @ [(AddressOwner a, ShipmentObj r)] \<and>
        Shipment.id' r = UID (tx_count l) 0 \<and> confidence_score r \<le> 100) \<or>
   (\<exists>ow s s'. find_shipment (Shipment.id' s) (objects l) = Some (ow, s) \<and>
        Shipment.id' s' = Shipment.id' s \<and> confidence_score s' \<le> 100 \<and>
        objects (snd (execute a clock c l)) = write_back s' (objects l))"
proof (cases "fst (execute a clock c l) = Success")
  case False
  then show ?thesis by (simp add: execute_abort_unchanged)
next
  case True
  show ?thesis
  proof (cases c)
    case (Oracle_update sid sm conf sg)
    with True show ?thesis
      by (simp add: execute_oracle_update_Success_iff execute_oracle_update_accept)
  next
    case (Create_shipment sid sm conf)
    with True show ?thesis
      by (simp add: execute_create_shipment_Success_iff execute_create_shipment_accept)
  next
    case (Update_shipment oid sm conf sg)
    with True obtain ow s where f: "find_shipment oid (objects l) = Some (ow, s)"
      and b: "may_borrow_mut a ow" and ok: "conf \<le> 100" "internal_check_utf8 sm"
      by (auto simp: execute_update_shipment_Success_iff)
    let ?s' = "s\<lparr>ai_summary := String sm, confidence_score := conf,
      timestamp := timestamp_ms clock, oracle_signature := sg, oracle_address := a\<rparr>"
    from f have "Shipment.id' s = oid" by (simp add: find_shipment_SomeD)
    with f have "find_shipment (Shipment.id' s) (objects l) = Some (ow, s)" by simp
    moreover have "Shipment.id' ?s' = Shipment.id' s" by simp
    moreover have "confidence_score ?s' \<le> 100" using ok by simp
    moreover have "objects (snd (execute a clock c l)) = write_back ?s' (objects l)"
      using f b ok Update_shipment by (simp add: execute_update_shipment_accept)
    ultimately show ?thesis by blast
  qed
qed

lemma execute_refused:
  "fst (execute a clock c l) \<noteq> Success \<Longrightarrow>
   snd (execute a clock c l) = l \<or> snd (execute a clock c l) = executed l"
  by (auto simp: execute_def split: call.splits sum.splits option.splits if_splits)

lemma execute_tx_count:
  "tx_count (snd (execute a clock c l)) = tx_count l \<or>
   tx_count (snd (execute a clock c l)) = Suc (tx_count l)"
proof (cases "fst (execute a clock c l) = Success")
  case False
  then show ?thesis using execute_refused [of a clock c l] by auto
next
  case True
  show ?thesis
  proof (cases c)
    case (Oracle_update sid sm conf sg)
    with True show ?thesis
      by (simp add: execute_oracle_update_Success_iff execute_oracle_update_accept)
  next
    case (Create_shipment sid sm conf)
    with True show ?thesis
      by (simp add: execute_create_shipment_Success_iff execute_create_shipment_accept)
  next
    case (Update_shipment oid sm conf sg)
    with True show ?thesis
      by (auto simp: execute_update_shipment_Success_iff execute_update_shipment_accept)
  qed
qed

lemma tx_count_execute_le: "tx_count l \<le> tx_count (snd (execute a clock c l))"
  using execute_tx_count [of a clock c l] by auto

subsection \<open>Invariants of the reachable ledgers\<close>

lemma run_induct [consumes 0, case_names publish execute]:
  assumes "P (publish p)"
    and "\<And>l a clock c. P l \<Longrightarrow> P (snd (execute a clock c l))"
  shows "P (run p txs)"
proof (induction txs rule: rev_induct)
  case Nil
  show ?case using assms(1) by (simp add: run_Nil)
next
  case (snoc t txs)
  obtain a clock c where t: "t = (a, clock, c)" by (cases t) auto
  show ?case unfolding t run_snoc using snoc assms(2) by blast
qed

lemma ids_below_execute:
  assumes "ids_below l"
  shows "ids_below (snd (execute a clock c l))"
proof -
  let ?l' = "snd (execute a clock c l)"
  have le: "tx_count l \<le> tx_count ?l'" by (rule tx_count_execute_le)
  consider (same) "objects ?l' = objects l"
    | (new) r where "objects ?l' = objects l @ [(AddressOwner a, ShipmentObj r)]"
        "Shipment.id' r = UID (tx_count l) 0"
    | (upd) ow s s' where "find_shipment (Shipment.id' s) (objects l) = Some (ow, s)"
        "Shipment.id' s' = Shipment.id' s" "objects ?l' = write_back s' (objects l)"
    using execute_objects [of a clock c l] by blast
  then show ?thesis
  proof cases
    case same
    with assms le show ?thesis by (fastforce simp: ids_below_def)
  next
    case new
    have "fst (execute a clock c l) = Success"
      using new(1) execute_abort_unchanged [of a clock c l] by auto
    then have "tx_count ?l' = Suc (tx_count l)"
      by (cases c)
        (auto simp: execute_oracle_update_Success_iff execute_oracle_update_accept
          execute_create_shipment_Success_iff execute_create_shipment_accept
          execute_update_shipment_Success_iff execute_update_shipment_accept)
    with assms new show ?thesis
      by (fastforce simp: ids_below_def shipments_append)
  next
    case upd
    from upd(1) have "s \<in> set (shipments (objects l))" by (simp add: find_shipment_SomeD)
    with assms have "tx_digest (Shipment.id' s) < tx_count l" by (simp add: ids_below_def)
    with upd(2) le have s': "tx_digest (Shipment.id' s') < tx_count ?l'" by simp
    show ?thesis unfolding ids_below_def
    proof
      fix x assume "x \<in> set (shipments (objects ?l'))"
      with upd(3) have "x = s' \<or> x \<in> set (shipments (objects l))"
        using set_shipments_write_back [of s' "objects l"] by auto
      with s' assms le show "tx_digest (Shipment.id' x) < tx_count ?l'"
        by (fastforce simp: ids_below_def)
    qed
  qed
qed

lemma ids_below_run: "ids_below (run p txs)"
proof (induction rule: run_induct)
  case publish
  show ?case by (simp add: ids_below_def publish_eq)
next
  case (execute l a clock c)
  then show ?case by (rule ids_below_execute)
qed

lemma records_owned_execute:
  assumes "records_owned l"
  shows "records_owned (snd (execute a clock c l))"
proof -
  let ?l' = "snd (execute a clock c l)"
  consider (same) "objects ?l' = objects l"
    | (new) r where "objects ?l' = objects l @ [(AddressOwner a, ShipmentObj r)]"
    | (upd) s' where "objects ?l' = write_back s' (objects l)"
    using execute_objects [of a clock c l] by blast
  then show ?thesis
  proof cases
    case same
    with assms show ?thesis by (simp add: records_owned_def)
  next
    case new
    with assms show ?thesis
      by (auto simp: records_owned_def find_shipment_append split: option.splits if_splits)
  next
    case upd
    show ?thesis unfolding records_owned_def
    proof (intro allI impI)
      fix oid ow s assume f: "find_shipment oid (objects ?l') = Some (ow, s)"
      show "ow \<noteq> Shared"
      proof (cases "oid = Shipment.id' s'")
        case True
        with f upd obtain s0 where "find_shipment oid (objects l) = Some (ow, s0)"
          by (auto simp: find_shipment_write_back_same split: option.splits)
        with assms show ?thesis by (auto simp: records_owned_def)
      next
        case False
        with f upd have "find_shipment oid (objects l) = Some (ow, s)"
          by (simp add: find_shipment_write_back_other)
        with assms show ?thesis by (auto simp: records_owned_def)
      qed
    qed
  qed
qed

lemma records_owned_run: "records_owned (run p txs)"
proof (induction rule: run_induct)
  case publish
  show ?case by (simp add: records_owned_def publish_eq)
next
  case (execute l a clock c)
  then show ?case by (rule records_owned_execute)
qed

lemma may_borrow_mut_run:
  "find_shipment oid (objects (run p txs)) = Some (ow, s) \<Longrightarrow>
   may_borrow_mut a ow \<longleftrightarrow> ow = AddressOwner a"
  using records_owned_run [of p txs] by (auto simp: records_owned_def may_borrow_mut_def)

lemma fresh_id_run:
  "UID (tx_count (run p txs)) n \<notin> set (map Shipment.id' (shipments (objects (run p txs))))"
proof
  assume "UID (tx_count (run p txs)) n \<in> set (map Shipment.id' (shipments (objects (run p txs))))"
  then obtain s where s: "s \<in> set (shipments (objects (run p txs)))"
    and "Shipment.id' s = UID (tx_count (run p txs)) n" by auto
  then have "tx_digest (Shipment.id' s) = tx_count (run p txs)" by simp
  moreover have "tx_digest (Shipment.id' s) < tx_count (run p txs)"
    using ids_below_run [of p txs] s by (simp add: ids_below_def)
  ultimately show False by simp
qed

subsection \<open>The status of a transaction\<close>

text \<open>The status of a transaction, by the checks of the entry function in their order.\<close>

lemma execute_oracle_update_status:
  "fst (execute a clock (Oracle_update sid sm c sg) l) =
     (if \<not> c \<le> 100 then MoveAbort (Abort Supply_chain EInvalidConfidenceScore)
      else if internal_check_utf8 sid \<and> internal_check_utf8 sm then Success
      else MoveAbort (Abort Std_string EINVALID_UTF8))"
proof (cases "c \<le> 100")
  case False
  then have "100 < c" by (simp add: not_le)
  then show ?thesis using False by (simp add: execute_def oracle_update_abort_conf)
next
  case True
  show ?thesis
  proof (cases "internal_check_utf8 sid \<and> internal_check_utf8 sm")
    case valid: True
    with True show ?thesis by (simp add: execute_oracle_update_accept)
  next
    case False
    with True show ?thesis by (simp add: execute_def oracle_update_abort_utf8)
  qed
qed

lemma execute_create_shipment_status:
  "fst (execute a clock (Create_shipment sid sm c) l) =
     (if \<not> c \<le> 100 then MoveAbort (Abort Supply_chain EInvalidConfidenceScore)
      else if internal_check_utf8 sid \<and> internal_check_utf8 sm then Success
      else MoveAbort (Abort Std_string EINVALID_UTF8))"
proof (cases "c \<le> 100")
  case False
  then have "100 < c" by (simp add: not_le)
  then show ?thesis using False by (simp add: execute_def create_shipment_abort_conf)
next
  case True
  show ?thesis
  proof (cases "internal_check_utf8 sid \<and> internal_check_utf8 sm")
    case valid: True
    with True show ?thesis by (simp add: execute_create_shipment_accept)
  next
    case False
    with True show ?thesis by (simp add: execute_def create_shipment_abort_utf8)
  qed
qed

lemma execute_update_shipment_status:
  "fst (execute a clock (Update_shipment oid sm c sg) l) =
     (case find_shipment oid (objects l) of
        None \<Rightarrow> InvalidInput
      | Some (ow, s) \<Rightarrow>
          if \<not> may_borrow_mut a ow then InvalidInput
          else if \<not> c \<le> 100 then MoveAbort (Abort Supply_chain EInvalidConfidenceScore)
          else if internal_check_utf8 sm then Success
          else MoveAbort (Abort Std_string EINVALID_UTF8))"
proof (cases "find_shipment oid (objects l)")
  case None
  then show ?thesis by (simp add: execute_def)
next
  case (Some r)
  obtain ow s where r: "r = (ow, s)" by (cases r) auto
  show ?thesis
  proof (cases "may_borrow_mut a ow")
    case False
    with Some r show ?thesis by (simp add: execute_def)
  next
    case b: True
    show ?thesis
    proof (cases "c \<le> 100")
      case False
      then have "100 < c" by (simp add: not_le)
      then show ?thesis using False Some r b
        by (simp add: execute_def update_shipment_abort_conf)
    next
      case True
      show ?thesis
      proof (cases "internal_check_utf8 sm")
        case valid: True
        with True Some r b show ?thesis by (simp add: execute_update_shipment_accept)
      next
        case False
        with True Some r b show ?thesis by (simp add: execute_def update_shipment_abort_utf8)
      qed
    qed
  qed
qed

subsection \<open>Rejection of a confidence score out of range\<close>

text \<open>
  C1. A call of \<^verbatim>\<open>oracle_update\<close>, \<^verbatim>\<open>create_shipment\<close> or \<^verbatim>\<open>update_shipment\<close> whose
  confidence score is outside \<open>[0,100]\<close> (as a \<^verbatim>\<open>u64\<close>: above 100) aborts with
  \<^verbatim>\<open>EInvalidConfidenceScore\<close>, and the transaction that makes the call does not
  succeed and leaves the objects and the events of the ledger as they were: no record
  is created or modified and no event is emitted.
\<close>

theorem invalid_confidence_rejected:
  "100 < c \<Longrightarrow>
   oracle_update sid sm c sg clock ctx l = Inl (Abort Supply_chain EInvalidConfidenceScore) \<and>
   create_shipment sid sm c clock ctx l = Inl (Abort Supply_chain EInvalidConfidenceScore) \<and>
   update_shipment s sm c sg clock ctx l = Inl (Abort Supply_chain EInvalidConfidenceScore) \<and>
   (\<forall>call \<in> {Oracle_update sid sm c sg, Create_shipment sid sm c, Update_shipment oid sm c sg}.
      fst (execute a clock call l) \<noteq> Success \<and>
      objects (snd (execute a clock call l)) = objects l \<and>
      events (snd (execute a clock call l)) = events l)"
proof -
  assume nc: "100 < c"
  have ns: "fst (execute a clock call l) \<noteq> Success"
    if "call \<in> {Oracle_update sid sm c sg, Create_shipment sid sm c, Update_shipment oid sm c sg}"
    for call
    using that nc
    by (auto simp: execute_def oracle_update_abort_conf create_shipment_abort_conf
        update_shipment_abort_conf split: option.splits if_splits)
  show ?thesis
    using nc ns execute_abort_unchanged
    by (simp add: oracle_update_abort_conf create_shipment_abort_conf
        update_shipment_abort_conf)
qed


theorem invalid_confidence_rejected_witness:
  "(100::u64) < 150 \<and>
   oracle_update SHIP_1 delay_2h 150 sig0 (at_ms 2000) (new_context alice (publish alice))
     (publish alice) = Inl (Abort Supply_chain EInvalidConfidenceScore) \<and>
   fst (execute alice (at_ms 2000) (Oracle_update SHIP_1 delay_2h 150 sig0) (publish alice))
     \<noteq> Success \<and>
   objects (snd (execute alice (at_ms 2000) (Oracle_update SHIP_1 delay_2h 150 sig0)
     (publish alice))) = objects (publish alice) \<and>
   events (snd (execute alice (at_ms 2000) (Oracle_update SHIP_1 delay_2h 150 sig0)
     (publish alice))) = events (publish alice)"
  using invalid_confidence_rejected [of 150 SHIP_1 delay_2h sig0 "at_ms 2000"
      "new_context alice (publish alice)" "publish alice" _ _ alice]
  by simp

subsection \<open>Creation by \<^verbatim>\<open>oracle_update\<close>\<close>

text \<open>
  C2 as the specification states it: a second \<^verbatim>\<open>oracle_update\<close> with the shipment id
  of an existing record is rejected or deduplicated, never a second creation. The code
  has no lookup by shipment id: the same submission, made twice, is accepted twice and
  leaves two records with that shipment id, under two object ids.
\<close>

theorem duplicate_submission_creates_second_record:
  "fst (execute alice (at_ms 2000) (Oracle_update SHIP_1 delay_2h 82 sig0)
          (run alice [(alice, at_ms 1000, Oracle_update SHIP_1 delay_2h 82 sig0)])) = Success \<and>
   map get_shipment_id (shipments (objects
        (run alice [(alice, at_ms 1000, Oracle_update SHIP_1 delay_2h 82 sig0),
                    (alice, at_ms 2000, Oracle_update SHIP_1 delay_2h 82 sig0)])))
     = [String SHIP_1, String SHIP_1] \<and>
   map Shipment.id' (shipments (objects
        (run alice [(alice, at_ms 1000, Oracle_update SHIP_1 delay_2h 82 sig0),
                    (alice, at_ms 2000, Oracle_update SHIP_1 delay_2h 82 sig0)])))
     = [UID 1 0, UID 2 0]"
  by (simp add: model_defs sample_defs)

text \<open>
  C2, amended. Every \<^verbatim>\<open>oracle_update\<close> whose confidence score is at most 100 and whose
  byte vectors are UTF-8 is accepted, on any reachable ledger and whether or not a
  record with that shipment id exists: it adds one record with the submitted shipment
  id, owned by the sender, under an object id no record of the ledger has, and leaves
  every object that was there as it was.
\<close>

theorem oracle_update_creates_fresh_record:
  "c \<le> 100 \<Longrightarrow> internal_check_utf8 sid \<Longrightarrow> internal_check_utf8 sm \<Longrightarrow>
   fst (execute a clock (Oracle_update sid sm c sg) (run p txs)) = Success \<and>
   (\<exists>r. objects (snd (execute a clock (Oracle_update sid sm c sg) (run p txs)))
          = objects (run p txs) @ [(AddressOwner a, ShipmentObj r)] \<and>
        get_shipment_id r = String sid \<and>
        Shipment.id' r \<notin> set (map Shipment.id' (shipments (objects (run p txs)))))"
  using fresh_id_run [of p txs 0]
  by (simp add: execute_oracle_update_accept get_shipment_id_def)

theorem oracle_update_creates_fresh_record_witness:
  "(82::u64) \<le> 100 \<and> internal_check_utf8 SHIP_1 \<and> internal_check_utf8 delay_2h \<and>
   String SHIP_1 \<in> set (map get_shipment_id (shipments (objects
         (run alice [(alice, at_ms 1000, Oracle_update SHIP_1 delay_2h 82 sig0)])))) \<and>
   fst (execute alice (at_ms 2000) (Oracle_update SHIP_1 delay_2h 82 sig0)
         (run alice [(alice, at_ms 1000, Oracle_update SHIP_1 delay_2h 82 sig0)])) = Success \<and>
   (\<exists>r. objects (snd (execute alice (at_ms 2000) (Oracle_update SHIP_1 delay_2h 82 sig0)
                (run alice [(alice, at_ms 1000, Oracle_update SHIP_1 delay_2h 82 sig0)])))
          = objects (run alice [(alice, at_ms 1000, Oracle_update SHIP_1 delay_2h 82 sig0)])
              @ [(AddressOwner alice, ShipmentObj r)] \<and>
        get_shipment_id r = String SHIP_1 \<and>
        Shipment.id' r \<notin> set (map Shipment.id' (shipments (objects
            (run alice [(alice, at_ms 1000, Oracle_update SHIP_1 delay_2h 82 sig0)])))))"
proof -
  have h: "(82::u64) \<le> 100" "internal_check_utf8 SHIP_1" "internal_check_utf8 delay_2h"
    by (simp_all add: sample_defs)
  have e: "String SHIP_1 \<in> set (map get_shipment_id (shipments (objects
         (run alice [(alice, at_ms 1000, Oracle_update SHIP_1 delay_2h 82 sig0)]))))"
    by (simp add: model_defs sample_defs)
  show ?thesis
    using h e oracle_update_creates_fresh_record [OF h, of alice "at_ms 2000" sig0 alice
        "[(alice, at_ms 1000, Oracle_update SHIP_1 delay_2h 82 sig0)]"]
    by blast
qed

subsection \<open>Events\<close>

text \<open>
  C3 as the specification states it: a first-time submission accepted by
  \<^verbatim>\<open>oracle_update\<close> emits a \<^verbatim>\<open>ShipmentCreated\<close> event, and \<^verbatim>\<open>ShipmentUpdated\<close> is
  emitted only on the update of an existing record. On a ledger with no record at all,
  an accepted \<^verbatim>\<open>oracle_update\<close> emits one event, and it is \<^verbatim>\<open>ShipmentUpdated\<close>.
\<close>

theorem first_oracle_update_emits_updated:
  "shipments (objects (publish alice)) = [] \<and>
   events (publish alice) = [] \<and>
   fst (execute alice (at_ms 1000) (Oracle_update SHIP_1 delay_2h 82 sig0) (publish alice))
     = Success \<and>
   events (snd (execute alice (at_ms 1000) (Oracle_update SHIP_1 delay_2h 82 sig0)
     (publish alice))) = [ShipmentUpdated (String SHIP_1) 82 1000 alice]"
  by (simp add: model_defs sample_defs)

text \<open>
  C3, amended. An accepted transaction emits exactly one event. For \<^verbatim>\<open>oracle_update\<close>,
  first-time or not, it is \<^verbatim>\<open>ShipmentUpdated\<close> with the submitted shipment id and
  confidence score, the clock's timestamp and the sender; for \<^verbatim>\<open>create_shipment\<close> it
  is \<^verbatim>\<open>ShipmentCreated\<close> with the submitted shipment id and the clock's timestamp; for
  \<^verbatim>\<open>update_shipment\<close> it is \<^verbatim>\<open>ShipmentUpdated\<close> with the shipment id of the existing
  record, the new confidence score, the clock's timestamp and the sender.
\<close>

theorem events_of_accepted_transactions:
  "(fst (execute a clock (Oracle_update sid sm c sg) l) = Success \<longrightarrow>
      events (snd (execute a clock (Oracle_update sid sm c sg) l))
        = events l @ [ShipmentUpdated (String sid) c (timestamp_ms clock) a]) \<and>
   (fst (execute a clock (Create_shipment sid sm c) l) = Success \<longrightarrow>
      events (snd (execute a clock (Create_shipment sid sm c) l))
        = events l @ [ShipmentCreated (String sid) (timestamp_ms clock)]) \<and>
   (fst (execute a clock (Update_shipment oid sm c sg) l) = Success \<longrightarrow>
      (\<exists>ow s. find_shipment oid (objects l) = Some (ow, s) \<and>
         events (snd (execute a clock (Update_shipment oid sm c sg) l))
           = events l @ [ShipmentUpdated (shipment_id s) c (timestamp_ms clock) a]))"
proof (intro conjI impI)
  assume "fst (execute a clock (Oracle_update sid sm c sg) l) = Success"
  then show "events (snd (execute a clock (Oracle_update sid sm c sg) l))
      = events l @ [ShipmentUpdated (String sid) c (timestamp_ms clock) a]"
    by (simp add: execute_oracle_update_Success_iff execute_oracle_update_accept)
next
  assume "fst (execute a clock (Create_shipment sid sm c) l) = Success"
  then show "events (snd (execute a clock (Create_shipment sid sm c) l))
      = events l @ [ShipmentCreated (String sid) (timestamp_ms clock)]"
    by (simp add: execute_create_shipment_Success_iff execute_create_shipment_accept)
next
  assume "fst (execute a clock (Update_shipment oid sm c sg) l) = Success"
  then show "\<exists>ow s. find_shipment oid (objects l) = Some (ow, s) \<and>
      events (snd (execute a clock (Update_shipment oid sm c sg) l))
        = events l @ [ShipmentUpdated (shipment_id s) c (timestamp_ms clock) a]"
    by (auto simp: execute_update_shipment_Success_iff execute_update_shipment_accept)
qed

theorem events_of_accepted_transactions_witness:
  "fst (execute alice (at_ms 2000) (Oracle_update SHIP_1 delay_2h 82 sig0)
         (run alice [(alice, at_ms 1000, Create_shipment SHIP_1 delay_2h 70)])) = Success \<and>
   fst (execute alice (at_ms 2000) (Create_shipment SHIP_1 delay_2h 82)
         (run alice [(alice, at_ms 1000, Create_shipment SHIP_1 delay_2h 70)])) = Success \<and>
   fst (execute alice (at_ms 2000) (Update_shipment (UID 1 0) delay_2h 90 sig0)
         (run alice [(alice, at_ms 1000, Create_shipment SHIP_1 delay_2h 70)])) = Success \<and>
   events (snd (execute alice (at_ms 2000) (Oracle_update SHIP_1 delay_2h 82 sig0)
         (run alice [(alice, at_ms 1000, Create_shipment SHIP_1 delay_2h 70)])))
     = events (run alice [(alice, at_ms 1000, Create_shipment SHIP_1 delay_2h 70)])
         @ [ShipmentUpdated (String SHIP_1) 82 (timestamp_ms (at_ms 2000)) alice] \<and>
   events (snd (execute alice (at_ms 2000) (Create_shipment SHIP_1 delay_2h 82)
         (run alice [(alice, at_ms 1000, Create_shipment SHIP_1 delay_2h 70)])))
     = events (run alice [(alice, at_ms 1000, Create_shipment SHIP_1 delay_2h 70)])
         @ [ShipmentCreated (String SHIP_1) (timestamp_ms (at_ms 2000))] \<and>
   (\<exists>ow s. find_shipment (UID 1 0)
         (objects (run alice [(alice, at_ms 1000, Create_shipment SHIP_1 delay_2h 70)]))
           = Some (ow, s) \<and>
      events (snd (execute alice (at_ms 2000) (Update_shipment (UID 1 0) delay_2h 90 sig0)
         (run alice [(alice, at_ms 1000, Create_shipment SHIP_1 delay_2h 70)])))
       = events (run alice [(alice, at_ms 1000, Create_shipment SHIP_1 delay_2h 70)])
           @ [ShipmentUpdated (shipment_id s) 90 (timestamp_ms (at_ms 2000)) alice])"
proof -
  let ?l = "run alice [(alice, at_ms 1000, Create_shipment SHIP_1 delay_2h 70)]"
  have h1: "fst (execute alice (at_ms 2000) (Oracle_update SHIP_1 delay_2h 82 sig0) ?l) = Success"
    by (simp add: model_defs sample_defs)
  have h2: "fst (execute alice (at_ms 2000) (Create_shipment SHIP_1 delay_2h 82) ?l) = Success"
    by (simp add: model_defs sample_defs)
  have h3: "fst (execute alice (at_ms 2000) (Update_shipment (UID 1 0) delay_2h 90 sig0) ?l)
      = Success"
    by (simp add: model_defs sample_defs)
  show ?thesis
    using h1 h2 h3
      events_of_accepted_transactions [of alice "at_ms 2000" SHIP_1 delay_2h 82 sig0 ?l]
      events_of_accepted_transactions [of alice "at_ms 2000" SHIP_1 delay_2h 90 sig0 ?l "UID 1 0"]
    by blast
qed

subsection \<open>The range of the confidence score\<close>

text \<open>
  C4. Every \<^verbatim>\<open>Shipment\<close> record of a reachable ledger has a confidence score of at most
  100 (a \<^verbatim>\<open>u64\<close> is never below 0), and every transaction preserves that property of
  the records of a ledger.
\<close>

theorem confidence_score_in_range:
  "(\<forall>s \<in> set (shipments (objects (run p txs))). confidence_score s \<le> 100) \<and>
   ((\<forall>s \<in> set (shipments (objects l)). confidence_score s \<le> 100) \<longrightarrow>
    (\<forall>s \<in> set (shipments (objects (snd (execute a clock c l)))). confidence_score s \<le> 100))"
proof -
  have step: "\<forall>s \<in> set (shipments (objects (snd (execute a clock c l)))). confidence_score s \<le> 100"
    if inv: "\<forall>s \<in> set (shipments (objects l)). confidence_score s \<le> 100" for a clock c l
  proof -
    let ?l' = "snd (execute a clock c l)"
    consider (same) "objects ?l' = objects l"
      | (new) r where "objects ?l' = objects l @ [(AddressOwner a, ShipmentObj r)]"
          "confidence_score r \<le> 100"
      | (upd) s' where "confidence_score s' \<le> 100" "objects ?l' = write_back s' (objects l)"
      using execute_objects [of a clock c l] by blast
    then show ?thesis
    proof cases
      case same
      with inv show ?thesis by simp
    next
      case new
      with inv show ?thesis by (auto simp: shipments_append)
    next
      case upd
      show ?thesis
      proof
        fix x assume "x \<in> set (shipments (objects ?l'))"
        with upd(2) have "x = s' \<or> x \<in> set (shipments (objects l))"
          using set_shipments_write_back [of s' "objects l"] by auto
        with upd(1) inv show "confidence_score x \<le> 100" by auto
      qed
    qed
  qed
  have "\<forall>s \<in> set (shipments (objects (run p txs))). confidence_score s \<le> 100"
  proof (induction rule: run_induct)
    case publish
    show ?case by (simp add: publish_eq)
  next
    case (execute l a clock c)
    then show ?case by (rule step)
  qed
  with step show ?thesis by blast
qed

theorem confidence_score_in_range_witness:
  "shipments (objects (run alice [(alice, at_ms 1000, Create_shipment SHIP_1 delay_2h 70)])) \<noteq> [] \<and>
   confidence_score (hd (shipments (objects
      (run alice [(alice, at_ms 1000, Create_shipment SHIP_1 delay_2h 70)])))) \<le> 100 \<and>
   shipments (objects (snd (execute alice (at_ms 2000) (Update_shipment (UID 1 0) delay_2h 90 sig0)
      (run alice [(alice, at_ms 1000, Create_shipment SHIP_1 delay_2h 70)])))) \<noteq> [] \<and>
   confidence_score (hd (shipments (objects
      (snd (execute alice (at_ms 2000) (Update_shipment (UID 1 0) delay_2h 90 sig0)
        (run alice [(alice, at_ms 1000, Create_shipment SHIP_1 delay_2h 70)])))))) \<le> 100"
proof -
  let ?l = "run alice [(alice, at_ms 1000, Create_shipment SHIP_1 delay_2h 70)]"
  let ?l' = "snd (execute alice (at_ms 2000) (Update_shipment (UID 1 0) delay_2h 90 sig0) ?l)"
  have ne: "shipments (objects ?l) \<noteq> []" "shipments (objects ?l') \<noteq> []"
    by (simp_all add: model_defs sample_defs)
  then have mem: "hd (shipments (objects ?l)) \<in> set (shipments (objects ?l))"
    "hd (shipments (objects ?l')) \<in> set (shipments (objects ?l'))"
    by simp_all
  show ?thesis
    using ne mem
      confidence_score_in_range [of alice "[(alice, at_ms 1000, Create_shipment SHIP_1 delay_2h 70)]"
        ?l alice "at_ms 2000" "Update_shipment (UID 1 0) delay_2h 90 sig0"]
    by blast
qed

subsection \<open>Ledger-assigned fields\<close>

text \<open>
  C5. The payload of a call has neither a timestamp nor a signer. In the record that an
  accepted \<^verbatim>\<open>oracle_update\<close> or \<^verbatim>\<open>create_shipment\<close> adds, and in the record an accepted
  \<^verbatim>\<open>update_shipment\<close> leaves under the object id it was given, the timestamp is the
  reading of the ledger's clock and the oracle address is the sender of the
  transaction, whatever the payload.
\<close>

theorem timestamp_and_signer_from_ledger:
  "(fst (execute a clock (Oracle_update sid sm c sg) l) = Success \<longrightarrow>
      (\<exists>r. objects (snd (execute a clock (Oracle_update sid sm c sg) l))
             = objects l @ [(AddressOwner a, ShipmentObj r)] \<and>
           get_timestamp r = timestamp_ms clock \<and> get_oracle_address r = a)) \<and>
   (fst (execute a clock (Create_shipment sid sm c) l) = Success \<longrightarrow>
      (\<exists>r. objects (snd (execute a clock (Create_shipment sid sm c) l))
             = objects l @ [(AddressOwner a, ShipmentObj r)] \<and>
           get_timestamp r = timestamp_ms clock \<and> get_oracle_address r = a)) \<and>
   (fst (execute a clock (Update_shipment oid sm c sg) l) = Success \<longrightarrow>
      (\<exists>ow r. find_shipment oid (objects (snd (execute a clock (Update_shipment oid sm c sg) l)))
             = Some (ow, r) \<and>
           get_timestamp r = timestamp_ms clock \<and> get_oracle_address r = a))"
proof (intro conjI impI)
  assume "fst (execute a clock (Oracle_update sid sm c sg) l) = Success"
  then show "\<exists>r. objects (snd (execute a clock (Oracle_update sid sm c sg) l))
        = objects l @ [(AddressOwner a, ShipmentObj r)] \<and>
      get_timestamp r = timestamp_ms clock \<and> get_oracle_address r = a"
    by (simp add: execute_oracle_update_Success_iff execute_oracle_update_accept
        get_timestamp_def get_oracle_address_def)
next
  assume "fst (execute a clock (Create_shipment sid sm c) l) = Success"
  then show "\<exists>r. objects (snd (execute a clock (Create_shipment sid sm c) l))
        = objects l @ [(AddressOwner a, ShipmentObj r)] \<and>
      get_timestamp r = timestamp_ms clock \<and> get_oracle_address r = a"
    by (simp add: execute_create_shipment_Success_iff execute_create_shipment_accept
        get_timestamp_def get_oracle_address_def)
next
  assume "fst (execute a clock (Update_shipment oid sm c sg) l) = Success"
  then obtain ow s where f: "find_shipment oid (objects l) = Some (ow, s)"
    and ok: "may_borrow_mut a ow" "c \<le> 100" "internal_check_utf8 sm"
    by (auto simp: execute_update_shipment_Success_iff)
  let ?s' = "s\<lparr>ai_summary := String sm, confidence_score := c,
      timestamp := timestamp_ms clock, oracle_signature := sg, oracle_address := a\<rparr>"
  from f have oid: "Shipment.id' ?s' = oid" by (simp add: find_shipment_SomeD)
  have "find_shipment oid (write_back ?s' (objects l)) = Some (ow, ?s')"
    using find_shipment_write_back_same [of ?s' "objects l"] f unfolding oid by simp
  then show "\<exists>ow r. find_shipment oid (objects (snd (execute a clock (Update_shipment oid sm c sg) l)))
        = Some (ow, r) \<and>
      get_timestamp r = timestamp_ms clock \<and> get_oracle_address r = a"
    using f ok
    by (simp add: execute_update_shipment_accept get_timestamp_def get_oracle_address_def)
qed

theorem timestamp_and_signer_from_ledger_witness:
  "fst (execute bob (at_ms 2000) (Oracle_update SHIP_1 delay_2h 82 sig0)
         (run alice [(bob, at_ms 1000, Create_shipment SHIP_1 delay_2h 70)])) = Success \<and>
   fst (execute bob (at_ms 2000) (Create_shipment SHIP_1 delay_2h 82)
         (run alice [(bob, at_ms 1000, Create_shipment SHIP_1 delay_2h 70)])) = Success \<and>
   fst (execute bob (at_ms 2000) (Update_shipment (UID 1 0) delay_2h 90 sig0)
         (run alice [(bob, at_ms 1000, Create_shipment SHIP_1 delay_2h 70)])) = Success \<and>
   (\<exists>r. objects (snd (execute bob (at_ms 2000) (Oracle_update SHIP_1 delay_2h 82 sig0)
            (run alice [(bob, at_ms 1000, Create_shipment SHIP_1 delay_2h 70)])))
          = objects (run alice [(bob, at_ms 1000, Create_shipment SHIP_1 delay_2h 70)])
              @ [(AddressOwner bob, ShipmentObj r)] \<and>
        get_timestamp r = 2000 \<and> get_oracle_address r = bob) \<and>
   (\<exists>r. objects (snd (execute bob (at_ms 2000) (Create_shipment SHIP_1 delay_2h 82)
            (run alice [(bob, at_ms 1000, Create_shipment SHIP_1 delay_2h 70)])))
          = objects (run alice [(bob, at_ms 1000, Create_shipment SHIP_1 delay_2h 70)])
              @ [(AddressOwner bob, ShipmentObj r)] \<and>
        get_timestamp r = 2000 \<and> get_oracle_address r = bob) \<and>
   (\<exists>ow r. find_shipment (UID 1 0)
          (objects (snd (execute bob (at_ms 2000) (Update_shipment (UID 1 0) delay_2h 90 sig0)
            (run alice [(bob, at_ms 1000, Create_shipment SHIP_1 delay_2h 70)]))))
          = Some (ow, r) \<and>
        get_timestamp r = 2000 \<and> get_oracle_address r = bob)"
proof -
  let ?l = "run alice [(bob, at_ms 1000, Create_shipment SHIP_1 delay_2h 70)]"
  have h1: "fst (execute bob (at_ms 2000) (Oracle_update SHIP_1 delay_2h 82 sig0) ?l) = Success"
    by (simp add: model_defs sample_defs)
  have h2: "fst (execute bob (at_ms 2000) (Create_shipment SHIP_1 delay_2h 82) ?l) = Success"
    by (simp add: model_defs sample_defs)
  have h3: "fst (execute bob (at_ms 2000) (Update_shipment (UID 1 0) delay_2h 90 sig0) ?l)
      = Success"
    by (simp add: model_defs sample_defs)
  have t: "timestamp_ms (at_ms 2000) = 2000" by (simp add: at_ms_def)
  show ?thesis
    using h1 h2 h3
      timestamp_and_signer_from_ledger [of bob "at_ms 2000" SHIP_1 delay_2h 82 sig0 ?l]
      timestamp_and_signer_from_ledger [of bob "at_ms 2000" SHIP_1 delay_2h 90 sig0 ?l "UID 1 0"]
    unfolding t by blast
qed

subsection \<open>Reading a record back\<close>

text \<open>
  C6. After an accepted \<^verbatim>\<open>oracle_update\<close> on a reachable ledger, the record it created
  is the one found under the new object id, and the accessors return what was
  submitted: the bytes of the shipment id and of the summary and the confidence score;
  the signature is kept as submitted (and \<^verbatim>\<open>get_signature_length\<close> is its length). The
  timestamp and the oracle address are the ledger's: the clock's reading and the sender.
\<close>

theorem created_record_reads_back:
  "fst (execute a clock (Oracle_update sid sm c sg) (run p txs)) = Success \<Longrightarrow>
   \<exists>r. objects (snd (execute a clock (Oracle_update sid sm c sg) (run p txs)))
          = objects (run p txs) @ [(AddressOwner a, ShipmentObj r)] \<and>
       find_shipment (Shipment.id' r)
          (objects (snd (execute a clock (Oracle_update sid sm c sg) (run p txs))))
          = Some (AddressOwner a, r) \<and>
       bytes (get_shipment_id r) = sid \<and>
       bytes (get_ai_summary r) = sm \<and>
       get_confidence_score r = c \<and>
       oracle_signature r = sg \<and>
       get_signature_length r = of_nat (length sg) \<and>
       get_timestamp r = timestamp_ms clock \<and>
       get_oracle_address r = a"
proof -
  assume "fst (execute a clock (Oracle_update sid sm c sg) (run p txs)) = Success"
  then have ok: "c \<le> 100" "internal_check_utf8 sid" "internal_check_utf8 sm"
    by (simp_all add: execute_oracle_update_Success_iff)
  have "find_shipment (UID (tx_count (run p txs)) 0) (objects (run p txs)) = None"
    using fresh_id_run [of p txs 0] by (simp add: find_shipment_None_iff)
  then show ?thesis
    using ok
    by (simp add: execute_oracle_update_accept find_shipment_append get_shipment_id_def
        get_ai_summary_def get_confidence_score_def get_signature_length_def
        get_timestamp_def get_oracle_address_def)
qed

theorem created_record_reads_back_witness:
  "fst (execute alice (at_ms 1000) (Oracle_update SHIP_1 delay_2h 82 sig0) (run alice []))
     = Success \<and>
   (\<exists>r. objects (snd (execute alice (at_ms 1000) (Oracle_update SHIP_1 delay_2h 82 sig0)
             (run alice [])))
          = objects (run alice []) @ [(AddressOwner alice, ShipmentObj r)] \<and>
       find_shipment (Shipment.id' r)
          (objects (snd (execute alice (at_ms 1000) (Oracle_update SHIP_1 delay_2h 82 sig0)
             (run alice []))))
          = Some (AddressOwner alice, r) \<and>
       bytes (get_shipment_id r) = SHIP_1 \<and>
       bytes (get_ai_summary r) = delay_2h \<and>
       get_confidence_score r = 82 \<and>
       oracle_signature r = sig0 \<and>
       get_signature_length r = of_nat (length sig0) \<and>
       get_timestamp r = timestamp_ms (at_ms 1000) \<and>
       get_oracle_address r = alice)"
proof -
  have h: "fst (execute alice (at_ms 1000) (Oracle_update SHIP_1 delay_2h 82 sig0)
      (run alice [])) = Success"
    by (simp add: model_defs sample_defs)
  show ?thesis
    using h created_record_reads_back [OF h] by blast
qed

subsection \<open>The frame of \<^verbatim>\<open>update_shipment\<close>\<close>

text \<open>
  C7. An accepted \<^verbatim>\<open>update_shipment\<close> on the record \<open>s\<close> found under the object id
  \<open>oid\<close> overwrites exactly \<^verbatim>\<open>ai_summary\<close>, \<^verbatim>\<open>confidence_score\<close>, \<^verbatim>\<open>timestamp\<close>,
  \<^verbatim>\<open>oracle_signature\<close> and \<^verbatim>\<open>oracle_address\<close> of \<open>s\<close>; the object id and the shipment
  id stay. The updated record is what the ledger holds under \<open>oid\<close> afterwards, with
  the owner it had; every other record, every registry and the owner of every object
  are unchanged; one \<^verbatim>\<open>ShipmentUpdated\<close> event with the record's shipment id and the
  new values is appended to the events.
\<close>

theorem update_shipment_frame:
  "find_shipment oid (objects l) = Some (ow, s) \<Longrightarrow>
   fst (execute a clock (Update_shipment oid sm c sg) l) = Success \<Longrightarrow>
   oid' \<noteq> oid \<Longrightarrow>
   update_shipment s sm c sg clock (new_context a l) l =
     Inr (s\<lparr>ai_summary := String sm, confidence_score := c,
             timestamp := timestamp_ms clock, oracle_signature := sg,
             oracle_address := a\<rparr>,
          l\<lparr>events := events l @ [ShipmentUpdated (shipment_id s) c (timestamp_ms clock) a]\<rparr>) \<and>
   find_shipment oid (objects (snd (execute a clock (Update_shipment oid sm c sg) l))) =
     Some (ow, s\<lparr>ai_summary := String sm, confidence_score := c,
                  timestamp := timestamp_ms clock, oracle_signature := sg,
                  oracle_address := a\<rparr>) \<and>
   find_shipment oid' (objects (snd (execute a clock (Update_shipment oid sm c sg) l))) =
     find_shipment oid' (objects l) \<and>
   registries (objects (snd (execute a clock (Update_shipment oid sm c sg) l))) =
     registries (objects l) \<and>
   map fst (objects (snd (execute a clock (Update_shipment oid sm c sg) l))) =
     map fst (objects l) \<and>
   map Shipment.id' (shipments (objects (snd (execute a clock (Update_shipment oid sm c sg) l)))) =
     map Shipment.id' (shipments (objects l)) \<and>
   events (snd (execute a clock (Update_shipment oid sm c sg) l)) =
     events l @ [ShipmentUpdated (shipment_id s) c (timestamp_ms clock) a]"
proof -
  assume f: "find_shipment oid (objects l) = Some (ow, s)"
    and acc: "fst (execute a clock (Update_shipment oid sm c sg) l) = Success"
    and ne: "oid' \<noteq> oid"
  let ?s' = "s\<lparr>ai_summary := String sm, confidence_score := c,
      timestamp := timestamp_ms clock, oracle_signature := sg, oracle_address := a\<rparr>"
  from acc f have ok: "may_borrow_mut a ow" "c \<le> 100" "internal_check_utf8 sm"
    by (auto simp: execute_update_shipment_Success_iff)
  from f have oid: "Shipment.id' ?s' = oid" by (simp add: find_shipment_SomeD)
  have ex: "execute a clock (Update_shipment oid sm c sg) l =
      (Success,
       l\<lparr>objects := write_back ?s' (objects l),
         events := events l @ [ShipmentUpdated (shipment_id s) c (timestamp_ms clock) a],
         tx_count := Suc (tx_count l)\<rparr>)"
    using f ok by (rule execute_update_shipment_accept)
  have 1: "update_shipment s sm c sg clock (new_context a l) l =
      Inr (?s', l\<lparr>events := events l @ [ShipmentUpdated (shipment_id s) c (timestamp_ms clock) a]\<rparr>)"
    using ok by (simp add: update_shipment_accept new_context_def)
  have 2: "find_shipment oid (write_back ?s' (objects l)) = Some (ow, ?s')"
    using find_shipment_write_back_same [of ?s' "objects l"] f unfolding oid by simp
  have 3: "find_shipment oid' (write_back ?s' (objects l)) = find_shipment oid' (objects l)"
    using ne oid by (intro find_shipment_write_back_other) simp
  show ?thesis
    unfolding ex using 1 2 3
    by (simp add: registries_write_back owners_write_back ids_write_back)
qed

theorem update_shipment_frame_witness:
  "find_shipment (UID 1 0)
     (objects (run alice [(alice, at_ms 1000, Create_shipment SHIP_1 delay_2h 70),
                          (bob, at_ms 1500, Oracle_update SHIP_1 delay_2h 82 sig0)]))
     = Some (AddressOwner alice,
         \<lparr>Shipment.id' = UID 1 0, shipment_id = String SHIP_1, ai_summary = String delay_2h,
          confidence_score = 70, timestamp = 1000, oracle_signature = [],
          oracle_address = alice\<rparr>) \<and>
   fst (execute alice (at_ms 2000) (Update_shipment (UID 1 0) SHIP_1 90 sig0)
     (run alice [(alice, at_ms 1000, Create_shipment SHIP_1 delay_2h 70),
                 (bob, at_ms 1500, Oracle_update SHIP_1 delay_2h 82 sig0)])) = Success \<and>
   UID 2 0 \<noteq> UID 1 0 \<and>
   find_shipment (UID 1 0) (objects (snd
     (execute alice (at_ms 2000) (Update_shipment (UID 1 0) SHIP_1 90 sig0)
       (run alice [(alice, at_ms 1000, Create_shipment SHIP_1 delay_2h 70),
                   (bob, at_ms 1500, Oracle_update SHIP_1 delay_2h 82 sig0)]))))
     = Some (AddressOwner alice,
         \<lparr>Shipment.id' = UID 1 0, shipment_id = String SHIP_1, ai_summary = String SHIP_1,
          confidence_score = 90, timestamp = 2000, oracle_signature = sig0,
          oracle_address = alice\<rparr>) \<and>
   find_shipment (UID 2 0) (objects (snd
     (execute alice (at_ms 2000) (Update_shipment (UID 1 0) SHIP_1 90 sig0)
       (run alice [(alice, at_ms 1000, Create_shipment SHIP_1 delay_2h 70),
                   (bob, at_ms 1500, Oracle_update SHIP_1 delay_2h 82 sig0)]))))
     = find_shipment (UID 2 0)
         (objects (run alice [(alice, at_ms 1000, Create_shipment SHIP_1 delay_2h 70),
                              (bob, at_ms 1500, Oracle_update SHIP_1 delay_2h 82 sig0)])) \<and>
   events (snd
     (execute alice (at_ms 2000) (Update_shipment (UID 1 0) SHIP_1 90 sig0)
       (run alice [(alice, at_ms 1000, Create_shipment SHIP_1 delay_2h 70),
                   (bob, at_ms 1500, Oracle_update SHIP_1 delay_2h 82 sig0)])))
     = events (run alice [(alice, at_ms 1000, Create_shipment SHIP_1 delay_2h 70),
                          (bob, at_ms 1500, Oracle_update SHIP_1 delay_2h 82 sig0)])
         @ [ShipmentUpdated (String SHIP_1) 90 2000 alice]"
proof -
  let ?l = "run alice [(alice, at_ms 1000, Create_shipment SHIP_1 delay_2h 70),
                       (bob, at_ms 1500, Oracle_update SHIP_1 delay_2h 82 sig0)]"
  let ?s = "\<lparr>Shipment.id' = UID 1 0, shipment_id = String SHIP_1, ai_summary = String delay_2h,
          confidence_score = 70, timestamp = 1000, oracle_signature = [],
          oracle_address = alice\<rparr>"
  have h1: "find_shipment (UID 1 0) (objects ?l) = Some (AddressOwner alice, ?s)"
    by (simp add: model_defs sample_defs)
  have h2: "fst (execute alice (at_ms 2000) (Update_shipment (UID 1 0) SHIP_1 90 sig0) ?l)
      = Success"
    by (simp add: model_defs sample_defs)
  have h3: "UID 2 0 \<noteq> UID 1 0" by simp
  have t: "timestamp_ms (at_ms 2000) = 2000" by (simp add: at_ms_def)
  show ?thesis
    using h1 h2 h3 update_shipment_frame [OF h1 h2 h3] unfolding t by simp
qed

subsection \<open>The signature\<close>

text \<open>
  C8. No operation looks at the signature. Whether a transaction calling
  \<^verbatim>\<open>oracle_update\<close> or \<^verbatim>\<open>update_shipment\<close> is accepted, and how it fails otherwise, does
  not depend on the signature bytes; an accepted call stores the bytes it was given.
  On a reachable ledger an \<^verbatim>\<open>update_shipment\<close> is accepted exactly when the object id
  names a record owned by the sender, the confidence score is at most 100 and the
  summary is UTF-8.
\<close>

theorem signature_never_checked:
  "fst (execute a clock (Oracle_update sid sm c sg) l)
     = fst (execute a clock (Oracle_update sid sm c sg') l) \<and>
   fst (execute a clock (Update_shipment oid sm c sg) l)
     = fst (execute a clock (Update_shipment oid sm c sg') l) \<and>
   (fst (execute a clock (Oracle_update sid sm c sg) l) = Success \<longrightarrow>
      (\<exists>r. objects (snd (execute a clock (Oracle_update sid sm c sg) l))
             = objects l @ [(AddressOwner a, ShipmentObj r)] \<and>
           oracle_signature r = sg)) \<and>
   (fst (execute a clock (Update_shipment oid sm c sg) l) = Success \<longrightarrow>
      (\<exists>ow r. find_shipment oid (objects (snd (execute a clock (Update_shipment oid sm c sg) l)))
             = Some (ow, r) \<and>
           oracle_signature r = sg)) \<and>
   (fst (execute a clock (Update_shipment oid sm c sg) (run p txs)) = Success \<longleftrightarrow>
      (\<exists>s. find_shipment oid (objects (run p txs)) = Some (AddressOwner a, s)) \<and>
      c \<le> 100 \<and> internal_check_utf8 sm)"
proof (intro conjI impI)
  show "fst (execute a clock (Oracle_update sid sm c sg) l)
      = fst (execute a clock (Oracle_update sid sm c sg') l)"
    by (simp only: execute_oracle_update_status)
  show "fst (execute a clock (Update_shipment oid sm c sg) l)
      = fst (execute a clock (Update_shipment oid sm c sg') l)"
    by (simp only: execute_update_shipment_status)
next
  assume "fst (execute a clock (Oracle_update sid sm c sg) l) = Success"
  then show "\<exists>r. objects (snd (execute a clock (Oracle_update sid sm c sg) l))
        = objects l @ [(AddressOwner a, ShipmentObj r)] \<and> oracle_signature r = sg"
    by (simp add: execute_oracle_update_Success_iff execute_oracle_update_accept)
next
  assume "fst (execute a clock (Update_shipment oid sm c sg) l) = Success"
  then obtain ow s where f: "find_shipment oid (objects l) = Some (ow, s)"
    and ok: "may_borrow_mut a ow" "c \<le> 100" "internal_check_utf8 sm"
    by (auto simp: execute_update_shipment_Success_iff)
  let ?s' = "s\<lparr>ai_summary := String sm, confidence_score := c,
      timestamp := timestamp_ms clock, oracle_signature := sg, oracle_address := a\<rparr>"
  from f have oid: "Shipment.id' ?s' = oid" by (simp add: find_shipment_SomeD)
  have "find_shipment oid (write_back ?s' (objects l)) = Some (ow, ?s')"
    using find_shipment_write_back_same [of ?s' "objects l"] f unfolding oid by simp
  then show "\<exists>ow r. find_shipment oid
        (objects (snd (execute a clock (Update_shipment oid sm c sg) l))) = Some (ow, r) \<and>
      oracle_signature r = sg"
    using f ok by (simp add: execute_update_shipment_accept)
next
  show "fst (execute a clock (Update_shipment oid sm c sg) (run p txs)) = Success \<longleftrightarrow>
      (\<exists>s. find_shipment oid (objects (run p txs)) = Some (AddressOwner a, s)) \<and>
      c \<le> 100 \<and> internal_check_utf8 sm"
    unfolding execute_update_shipment_Success_iff
    using may_borrow_mut_run [of oid p txs _ _ a] by (auto simp: may_borrow_mut_def)
qed

theorem signature_never_checked_witness:
  "fst (execute alice (at_ms 2000) (Oracle_update SHIP_1 delay_2h 82 [])
         (run alice [(alice, at_ms 1000, Create_shipment SHIP_1 delay_2h 70)])) = Success \<and>
   fst (execute alice (at_ms 2000) (Update_shipment (UID 1 0) delay_2h 90 [0, 1, 2])
         (run alice [(alice, at_ms 1000, Create_shipment SHIP_1 delay_2h 70)])) = Success \<and>
   fst (execute bob (at_ms 2000) (Update_shipment (UID 1 0) delay_2h 90 [0, 1, 2])
         (run alice [(alice, at_ms 1000, Create_shipment SHIP_1 delay_2h 70)])) = InvalidInput \<and>
   fst (execute alice (at_ms 2000) (Oracle_update SHIP_1 delay_2h 82 sig0)
         (run alice [(alice, at_ms 1000, Create_shipment SHIP_1 delay_2h 70)])) = Success \<and>
   fst (execute alice (at_ms 2000) (Update_shipment (UID 1 0) delay_2h 90 sig0)
         (run alice [(alice, at_ms 1000, Create_shipment SHIP_1 delay_2h 70)])) = Success \<and>
   (\<exists>r. objects (snd (execute alice (at_ms 2000) (Oracle_update SHIP_1 delay_2h 82 [])
            (run alice [(alice, at_ms 1000, Create_shipment SHIP_1 delay_2h 70)])))
          = objects (run alice [(alice, at_ms 1000, Create_shipment SHIP_1 delay_2h 70)])
              @ [(AddressOwner alice, ShipmentObj r)] \<and>
        oracle_signature r = []) \<and>
   (\<exists>ow r. find_shipment (UID 1 0)
          (objects (snd (execute alice (at_ms 2000) (Update_shipment (UID 1 0) delay_2h 90 [0, 1, 2])
            (run alice [(alice, at_ms 1000, Create_shipment SHIP_1 delay_2h 70)]))))
          = Some (ow, r) \<and>
        oracle_signature r = [0, 1, 2])"
proof -
  let ?txs = "[(alice, at_ms 1000, Create_shipment SHIP_1 delay_2h 70)]"
  have h1: "fst (execute alice (at_ms 2000) (Oracle_update SHIP_1 delay_2h 82 []) (run alice ?txs))
      = Success"
    by (simp add: model_defs sample_defs)
  have h2: "fst (execute alice (at_ms 2000) (Update_shipment (UID 1 0) delay_2h 90 [0, 1, 2])
      (run alice ?txs)) = Success"
    by (simp add: model_defs sample_defs)
  have h3: "fst (execute bob (at_ms 2000) (Update_shipment (UID 1 0) delay_2h 90 [0, 1, 2])
      (run alice ?txs)) = InvalidInput"
    by (simp add: model_defs sample_defs)
  show ?thesis
    using h1 h2 h3
      signature_never_checked [of alice "at_ms 2000" SHIP_1 delay_2h 82 "[]" "run alice ?txs"
        sig0 "UID 1 0" alice ?txs]
      signature_never_checked [of alice "at_ms 2000" SHIP_1 delay_2h 90 "[0, 1, 2]" "run alice ?txs"
        sig0 "UID 1 0" alice ?txs]
    by metis
qed

subsection \<open>The registry\<close>

text \<open>
  C9. Publishing the module creates one \<^verbatim>\<open>ShipmentRegistry\<close>, shared, owned by the
  publisher; no transaction adds, removes or changes a registry; so every reachable
  ledger holds exactly that one registry, with the fields it was created with. A
  registry has the fields \<^verbatim>\<open>id\<close> and \<^verbatim>\<open>owner\<close> only: records are objects of their own.
\<close>

theorem exactly_one_registry:
  "registries (objects (publish p))
     = [(Shared, \<lparr>ShipmentRegistry.id' = UID 0 0, owner = p\<rparr>)] \<and>
   registries (objects (snd (execute a clock c l))) = registries (objects l) \<and>
   registries (objects (run p txs))
     = [(Shared, \<lparr>ShipmentRegistry.id' = UID 0 0, owner = p\<rparr>)]"
proof -
  have step: "registries (objects (snd (execute a clock c l))) = registries (objects l)"
    for a clock c l
    using execute_objects [of a clock c l]
    by (auto simp: registries_append registries_write_back)
  have "registries (objects (run p txs))
      = [(Shared, \<lparr>ShipmentRegistry.id' = UID 0 0, owner = p\<rparr>)]"
  proof (induction rule: run_induct)
    case publish
    show ?case by (simp add: publish_eq)
  next
    case (execute l a clock c)
    then show ?case by (simp add: step)
  qed
  then show ?thesis by (simp add: step publish_eq)
qed

theorem exactly_one_registry_witness:
  "registries (objects (run alice [(alice, at_ms 1000, Create_shipment SHIP_1 delay_2h 70),
                                   (bob, at_ms 1500, Oracle_update SHIP_1 delay_2h 82 sig0),
                                   (alice, at_ms 2000, Update_shipment (UID 1 0) SHIP_1 90 sig0)]))
     = [(Shared, \<lparr>ShipmentRegistry.id' = UID 0 0, owner = alice\<rparr>)]"
  using exactly_one_registry [of alice _ _ _ _
      "[(alice, at_ms 1000, Create_shipment SHIP_1 delay_2h 70),
        (bob, at_ms 1500, Oracle_update SHIP_1 delay_2h 82 sig0),
        (alice, at_ms 2000, Update_shipment (UID 1 0) SHIP_1 90 sig0)]"]
  by simp

subsection \<open>When a call returns\<close>

text \<open>
  C10. With a confidence score of at most 100, \<^verbatim>\<open>oracle_update\<close> and
  \<^verbatim>\<open>create_shipment\<close> return without abort when the shipment id and the summary are
  UTF-8, and \<^verbatim>\<open>update_shipment\<close> when the new summary is; when one of those byte
  vectors is not UTF-8 the call aborts in \<^verbatim>\<open>string::utf8\<close>, with \<^verbatim>\<open>EINVALID_UTF8\<close> of
  \<^verbatim>\<open>std::string\<close>.
\<close>

theorem entry_functions_return:
  "c \<le> 100 \<Longrightarrow>
   (internal_check_utf8 sid \<and> internal_check_utf8 sm \<longrightarrow>
      (\<exists>r. oracle_update sid sm c sg clock ctx l = Inr r) \<and>
      (\<exists>r. create_shipment sid sm c clock ctx l = Inr r)) \<and>
   (internal_check_utf8 sm \<longrightarrow> (\<exists>r. update_shipment s sm c sg clock ctx l = Inr r)) \<and>
   (\<not> (internal_check_utf8 sid \<and> internal_check_utf8 sm) \<longrightarrow>
      oracle_update sid sm c sg clock ctx l = Inl (Abort Std_string EINVALID_UTF8) \<and>
      create_shipment sid sm c clock ctx l = Inl (Abort Std_string EINVALID_UTF8)) \<and>
   (\<not> internal_check_utf8 sm \<longrightarrow>
      update_shipment s sm c sg clock ctx l = Inl (Abort Std_string EINVALID_UTF8))"
  by (simp add: oracle_update_accept create_shipment_accept update_shipment_accept
      oracle_update_abort_utf8 create_shipment_abort_utf8 update_shipment_abort_utf8)

theorem entry_functions_return_witness:
  "(82::u64) \<le> 100 \<and>
   internal_check_utf8 SHIP_1 \<and> internal_check_utf8 delay_2h \<and>
   \<not> internal_check_utf8 [0xC3, 0x28] \<and>
   (\<exists>r. oracle_update SHIP_1 delay_2h 82 sig0 (at_ms 1000) (new_context alice (publish alice))
          (publish alice) = Inr r) \<and>
   (\<exists>r. create_shipment SHIP_1 delay_2h 82 (at_ms 1000) (new_context alice (publish alice))
          (publish alice) = Inr r) \<and>
   (\<exists>r. update_shipment
          \<lparr>Shipment.id' = UID 1 0, shipment_id = String SHIP_1, ai_summary = String delay_2h,
           confidence_score = 70, timestamp = 500, oracle_signature = [],
           oracle_address = alice\<rparr>
          delay_2h 82 sig0 (at_ms 1000) (new_context alice (publish alice))
          (publish alice) = Inr r) \<and>
   oracle_update SHIP_1 [0xC3, 0x28] 82 sig0 (at_ms 1000) (new_context alice (publish alice))
     (publish alice) = Inl (Abort Std_string EINVALID_UTF8) \<and>
   create_shipment SHIP_1 [0xC3, 0x28] 82 (at_ms 1000) (new_context alice (publish alice))
     (publish alice) = Inl (Abort Std_string EINVALID_UTF8) \<and>
   update_shipment
     \<lparr>Shipment.id' = UID 1 0, shipment_id = String SHIP_1, ai_summary = String delay_2h,
      confidence_score = 70, timestamp = 500, oracle_signature = [],
      oracle_address = alice\<rparr>
     [0xC3, 0x28] 82 sig0 (at_ms 1000) (new_context alice (publish alice))
     (publish alice) = Inl (Abort Std_string EINVALID_UTF8)"
proof -
  let ?s = "\<lparr>Shipment.id' = UID 1 0, shipment_id = String SHIP_1, ai_summary = String delay_2h,
      confidence_score = 70, timestamp = 500, oracle_signature = [],
      oracle_address = alice\<rparr>"
  have c: "(82::u64) \<le> 100" by simp
  have v: "internal_check_utf8 SHIP_1" "internal_check_utf8 delay_2h"
    by (simp_all add: sample_defs)
  have nv: "\<not> internal_check_utf8 [0xC3, 0x28]" by (simp add: cont_def)
  show ?thesis
    using c v nv
      entry_functions_return [OF c, of SHIP_1 delay_2h sig0 "at_ms 1000"
        "new_context alice (publish alice)" "publish alice" ?s]
      entry_functions_return [OF c, of SHIP_1 "[0xC3, 0x28]" sig0 "at_ms 1000"
        "new_context alice (publish alice)" "publish alice" ?s]
    by blast
qed

end
